theory Spec2Isabelle
  imports Main "HOL-Library.Sublist"
begin

section \<open>The item catalogue service (price.go)\<close>

text \<open>
  The service keeps a package-level slice of items and answers HTTP requests on it.
  The handlers are embedded as functions that take the response writer, the request
  and the server state, and return the state and the writer as the handler leaves them.
  What the libraries do with the arguments they are handed (the JSON text, the line
  terminators, the bytes on the wire) is outside the repository: the body of a response
  is recorded as the sequence of writes the handler asked for. Handlers are taken to run
  one at a time: the interleaving of concurrent handlers on the shared slice, which the
  source does not guard against, is not modelled. Go's \<^verbatim>\<open>int\<close> is modelled by \<open>int\<close>; the
  only arithmetic is \<^verbatim>\<open>len(items) + 1\<close>, which cannot overflow for a slice held in memory.
\<close>

subsection \<open>Data\<close>

text \<open>\<^verbatim>\<open>type Item struct { ID int; Name string; Price int }\<close>\<close>

record Item =
  ID :: int
  Name :: string
  Price :: int

text \<open>The zero value of the struct, as \<^verbatim>\<open>var newItem Item\<close> declares it.\<close>

definition zero_Item :: Item where
  "zero_Item = \<lparr>ID = 0, Name = [], Price = 0\<rparr>"

text \<open>The in-memory database at process start.\<close>

definition items_init :: "Item list" where
  "items_init =
     [\<lparr>ID = 1, Name = ''Item One'', Price = 100\<rparr>,
      \<lparr>ID = 2, Name = ''Item Two'', Price = 200\<rparr>]"

text \<open>
  A line of the process log: a message printed with \<^verbatim>\<open>log.Println\<close>, the line the logging
  middleware prints for a request (method and path; the measured duration is left out),
  or the message of a \<^verbatim>\<open>log.Fatal\<close>.
\<close>

datatype log_entry = Println string | Request_Line string string | Fatal string

record server_state =
  items :: "Item list"
  logged :: "log_entry list"

definition server_init :: server_state where
  "server_init = \<lparr>items = items_init, logged = []\<rparr>"

subsection \<open>Requests and the response writer\<close>

text \<open>
  Which case of the \<^verbatim>\<open>select\<close> in the list handler is taken first.
\<close>

datatype select_case = Timer_Elapsed | Ctx_Done

text \<open>
  A request: method, URL path and body, and what the list handler can observe of the
  request's context: the time (in nanoseconds after the handler starts waiting) at which
  the context's Done channel is closed, if it ever is, and the case the runtime picks
  when both channels are ready at the same instant.
\<close>

record request =
  Method :: string
  Path :: string
  Body :: string
  Done_At :: "nat option"
  Pick :: select_case

text \<open>The values handed to the JSON encoder, and the writes to a response body.\<close>

datatype json_arg = V_Item Item | V_Items "Item list"

datatype chunk = JSON json_arg | Text_Line string | File_Bytes string

text \<open>
  The response writer: the header map, the status code once the header has been
  written, and the body written so far.
\<close>

record ResponseWriter =
  Header :: "string \<rightharpoonup> string"
  Status :: "nat option"
  Written :: "chunk list"

definition new_writer :: ResponseWriter where
  "new_writer = \<lparr>Header = Map.empty, Status = None, Written = []\<rparr>"

definition StatusOK :: nat where "StatusOK = 200"
definition StatusCreated :: nat where "StatusCreated = 201"
definition StatusBadRequest :: nat where "StatusBadRequest = 400"
definition StatusNotFound :: nat where "StatusNotFound = 404"
definition StatusMethodNotAllowed :: nat where "StatusMethodNotAllowed = 405"
definition StatusRequestTimeout :: nat where "StatusRequestTimeout = 408"

text \<open>\<^verbatim>\<open>w.Header().Set(k, v)\<close>\<close>

definition Header_Set :: "string \<Rightarrow> string \<Rightarrow> ResponseWriter \<Rightarrow> ResponseWriter" where
  "Header_Set k v w = w\<lparr>Header := (Header w)(k \<mapsto> v)\<rparr>"

text \<open>\<^verbatim>\<open>w.WriteHeader(code)\<close>: the first call fixes the status, later calls are ignored.\<close>

definition WriteHeader :: "nat \<Rightarrow> ResponseWriter \<Rightarrow> ResponseWriter" where
  "WriteHeader code w = (case Status w of None \<Rightarrow> w\<lparr>Status := Some code\<rparr> | Some _ \<Rightarrow> w)"

text \<open>\<^verbatim>\<open>w.Write(data)\<close>: writes the header with status 200 first when none was written.\<close>

definition Write :: "chunk \<Rightarrow> ResponseWriter \<Rightarrow> ResponseWriter" where
  "Write c w = (let w = WriteHeader StatusOK w in w\<lparr>Written := Written w @ [c]\<rparr>)"

text \<open>\<^verbatim>\<open>json.NewEncoder(w).Encode(v)\<close>: one write of the encoding of \<open>v\<close>.\<close>

definition Encode :: "json_arg \<Rightarrow> ResponseWriter \<Rightarrow> ResponseWriter" where
  "Encode v w = Write (JSON v) w"

text \<open>
  \<^verbatim>\<open>http.Error(w, msg, code)\<close>: a plain-text reply, the message printed as one line.
\<close>

definition http_Error :: "ResponseWriter \<Rightarrow> string \<Rightarrow> nat \<Rightarrow> ResponseWriter" where
  "http_Error w msg code =
     (let w = Header_Set ''Content-Type'' ''text/plain; charset=utf-8'' w;
          w = Header_Set ''X-Content-Type-Options'' ''nosniff'' w;
          w = WriteHeader code w
      in Write (Text_Line msg) w)"

text \<open>\<^verbatim>\<open>http.NotFound(w, r)\<close>\<close>

definition http_NotFound :: "ResponseWriter \<Rightarrow> ResponseWriter" where
  "http_NotFound w = http_Error w ''404 page not found'' StatusNotFound"

subsection \<open>Handlers\<close>

text \<open>
  \<^verbatim>\<open>2 * time.Second\<close>, in nanoseconds.
\<close>

definition timer_ns :: nat where
  "timer_ns = 2 * 1000000000"

text \<open>
  The \<^verbatim>\<open>select\<close> of the list handler blocks until one of its two channels is ready
  and takes that case; when both are ready at once the runtime chooses. The timer
  channel is ready at \<open>timer_ns\<close>; the context's Done channel at \<open>Done_At\<close>, or never.
\<close>

definition select_first :: "request \<Rightarrow> select_case" where
  "select_first r =
     (case Done_At r of
        None \<Rightarrow> Timer_Elapsed
      | Some t \<Rightarrow> if t < timer_ns then Ctx_Done
                  else if timer_ns < t then Timer_Elapsed
                  else Pick r)"

definition GetItemsHandler ::
  "ResponseWriter \<Rightarrow> request \<Rightarrow> server_state \<Rightarrow> server_state \<times> ResponseWriter" where
  "GetItemsHandler w r s =
     (case select_first r of
        Timer_Elapsed \<Rightarrow>
          (let w = Header_Set ''Content-Type'' ''application/json'' w
           in (s, Encode (V_Items (items s)) w))
      | Ctx_Done \<Rightarrow>
          (let s = s\<lparr>logged := logged s @ [Println ''Request was cancelled by the client'']\<rparr>
           in (s, http_Error w ''Request cancelled'' StatusRequestTimeout)))"

text \<open>
  The create handler. \<open>Decode\<close> stands for \<^verbatim>\<open>json.NewDecoder(r.Body).Decode(&newItem)\<close>:
  given the body and the value of the target before the call, it yields the error, or
  the target as the decoder leaves it (fields the body does not mention keep their old
  value).
\<close>

definition AddItemHandler ::
  "(string \<Rightarrow> Item \<Rightarrow> string + Item) \<Rightarrow>
   ResponseWriter \<Rightarrow> request \<Rightarrow> server_state \<Rightarrow> server_state \<times> ResponseWriter" where
  "AddItemHandler Decode w r s =
     (case Decode (Body r) zero_Item of
        Inl err \<Rightarrow> (s, http_Error w err StatusBadRequest)
      | Inr newItem \<Rightarrow>
          (let newItem = newItem\<lparr>ID := int (length (items s)) + 1\<rparr>;
               s = s\<lparr>items := items s @ [newItem]\<rparr>;
               w = Header_Set ''Content-Type'' ''application/json'' w;
               w = WriteHeader StatusCreated w
           in (s, Encode (V_Item newItem) w)))"

text \<open>\<^verbatim>\<open>func NotFoundHandler\<close>\<close>

definition NotFoundHandler ::
  "ResponseWriter \<Rightarrow> request \<Rightarrow> server_state \<Rightarrow> server_state \<times> ResponseWriter" where
  "NotFoundHandler w r s = (s, http_NotFound w)"

subsection \<open>Static files\<close>

text \<open>
  The extension of a file name: the suffix of the last path element from its last dot,
  empty when that element has no dot.
\<close>

definition Ext :: "string \<Rightarrow> string" where
  "Ext p =
     (let elem = rev (takeWhile (\<lambda>c. c \<noteq> CHR ''/'') (rev p))
      in if CHR ''.'' \<in> set elem
         then CHR ''.'' # rev (takeWhile (\<lambda>c. c \<noteq> CHR ''.'') (rev elem))
         else [])"

text \<open>
  Modelled from the spec: serving a named file, which is the file serving of the
  standard library (\<^verbatim>\<open>http.FileServer\<close> and \<^verbatim>\<open>http.ServeFile\<close>) and not under src/.
  The spec treats it as an external collaborator that answers with the file's bytes, the
  content type inferred from the extension, or with 404 when the file is absent. \<open>fs\<close>
  is the file system (name to contents) and \<open>mime\<close> the table from extensions to content
  types.
\<close>

definition ServeFile ::
  "(string \<rightharpoonup> string) \<Rightarrow> (string \<Rightarrow> string) \<Rightarrow> ResponseWriter \<Rightarrow> string \<Rightarrow> ResponseWriter" where
  "ServeFile fs mime w name =
     (case fs name of
        None \<Rightarrow> http_NotFound w
      | Some bytes \<Rightarrow>
          Write (File_Bytes bytes) (Header_Set ''Content-Type'' (mime (Ext name)) w))"

text \<open>
  \<^verbatim>\<open>http.FileServer(http.Dir(root))\<close>: the file that the request path names beneath
  the root directory.
\<close>

definition FileServer ::
  "string \<Rightarrow> (string \<rightharpoonup> string) \<Rightarrow> (string \<Rightarrow> string) \<Rightarrow>
   ResponseWriter \<Rightarrow> request \<Rightarrow> server_state \<Rightarrow> server_state \<times> ResponseWriter" where
  "FileServer root fs mime w r s = (s, ServeFile fs mime w (root @ ''/'' @ Path r))"

text \<open>
  \<^verbatim>\<open>func ServeStaticFiles\<close>: \<^verbatim>\<open>http.ServeFile(w, r, "./static"+r.URL.Path)\<close>.
  \<^verbatim>\<open>main\<close> binds it to no route.
\<close>

definition ServeStaticFiles ::
  "(string \<rightharpoonup> string) \<Rightarrow> (string \<Rightarrow> string) \<Rightarrow>
   ResponseWriter \<Rightarrow> request \<Rightarrow> server_state \<Rightarrow> server_state \<times> ResponseWriter" where
  "ServeStaticFiles fs mime w r s = (s, ServeFile fs mime w (''./static'' @ Path r))"

text \<open>
  \<^verbatim>\<open>http.StripPrefix(prefix, h)\<close>: a request whose path starts with the prefix goes to
  \<open>h\<close> with the prefix removed from its path; any other request is answered 404.
\<close>

definition StripPrefix ::
  "string \<Rightarrow>
   (ResponseWriter \<Rightarrow> request \<Rightarrow> server_state \<Rightarrow> server_state \<times> ResponseWriter) \<Rightarrow>
   ResponseWriter \<Rightarrow> request \<Rightarrow> server_state \<Rightarrow> server_state \<times> ResponseWriter" where
  "StripPrefix pre h w r s =
     (if prefix pre (Path r) then h w (r\<lparr>Path := drop (length pre) (Path r)\<rparr>) s
      else (s, http_NotFound w))"

subsection \<open>Middleware and router\<close>

text \<open>
  \<^verbatim>\<open>loggingMiddleware\<close>: runs the wrapped handler, then logs method and path.
\<close>

definition loggingMiddleware ::
  "(ResponseWriter \<Rightarrow> request \<Rightarrow> server_state \<Rightarrow> server_state \<times> ResponseWriter) \<Rightarrow>
   ResponseWriter \<Rightarrow> request \<Rightarrow> server_state \<Rightarrow> server_state \<times> ResponseWriter" where
  "loggingMiddleware next w r s =
     (case next w r s of
        (s', w') \<Rightarrow> (s'\<lparr>logged := logged s' @ [Request_Line (Method r) (Path r)]\<rparr>, w'))"

text \<open>
  What the handlers take from outside the repository: the JSON decoder, the file
  system under the working directory and the table of content types.
\<close>

record env =
  Decode :: "string \<Rightarrow> Item \<Rightarrow> string + Item"
  Files :: "string \<rightharpoonup> string"
  TypeByExtension :: "string \<Rightarrow> string"

text \<open>
  The router as \<^verbatim>\<open>main\<close> builds it, routes tried in the order of registration:
  any path under \<^verbatim>\<open>/static/\<close> goes to the file server behind \<^verbatim>\<open>StripPrefix\<close>;
  \<^verbatim>\<open>/api/items\<close> goes to the list handler on GET and to the create handler on POST
  (the router answers 405 for another method on that path); everything else goes to the
  not-found handler. The middleware wraps the handler of a matched route.
\<close>

definition serve :: "env \<Rightarrow> request \<Rightarrow> server_state \<Rightarrow> server_state \<times> ResponseWriter" where
  "serve e r s =
     (if prefix ''/static/'' (Path r) then
        loggingMiddleware
          (StripPrefix ''/static/'' (FileServer ''./static'' (Files e) (TypeByExtension e)))
          new_writer r s
      else if Path r = ''/api/items'' \<and> Method r = ''GET'' then
        loggingMiddleware GetItemsHandler new_writer r s
      else if Path r = ''/api/items'' \<and> Method r = ''POST'' then
        loggingMiddleware (AddItemHandler (Decode e)) new_writer r s
      else if Path r = ''/api/items'' then
        (s, WriteHeader StatusMethodNotAllowed new_writer)
      else NotFoundHandler new_writer r s)"

text \<open>Serving a sequence of requests one after the other.\<close>

fun serve_all :: "env \<Rightarrow> request list \<Rightarrow> server_state \<Rightarrow> server_state" where
  "serve_all e [] s = s"
| "serve_all e (r # rs) s = serve_all e rs (fst (serve e r s))"

subsection \<open>Server lifecycle\<close>

text \<open>
  \<^verbatim>\<open>main\<close> starts the listener on a goroutine and then blocks receiving from the
  channel \<^verbatim>\<open>quit\<close>, which it has just made with capacity 1. The process is modelled as
  a transition system. Its state holds the phase of \<^verbatim>\<open>main\<close>, the buffer of \<^verbatim>\<open>quit\<close>,
  the signals for which \<^verbatim>\<open>quit\<close> has been registered with \<^verbatim>\<open>signal.Notify\<close>, and the
  server state. The events are those the environment and the scheduler can produce.
\<close>

datatype signal = Interrupt | Terminate

datatype phase = Serving | ShuttingDown | Stopped | Exited | Killed

record process =
  Phase :: phase
  Quit :: "signal list"
  Notify :: "signal list"
  Srv :: server_state

datatype event =
    Ev_Request request
  | Ev_Signal signal
  | Ev_Main
  | Ev_ListenAndServe_Returns string
  | Ev_Shutdown_Returns "string option"

definition say :: "log_entry \<Rightarrow> process \<Rightarrow> process" where
  "say l p = p\<lparr>Srv := (Srv p)\<lparr>logged := logged (Srv p) @ [l]\<rparr>\<rparr>"

text \<open>
  The process once \<^verbatim>\<open>main\<close> has reached \<^verbatim>\<open><-quit\<close>: the channel is empty, and no call
  of \<^verbatim>\<open>signal.Notify\<close> has been made, so it is registered for no signal.
\<close>

definition main_init :: process where
  "main_init =
     \<lparr>Phase = Serving, Quit = [], Notify = [],
      Srv = server_init\<lparr>logged := [Println ''Server started on http://localhost:8080'']\<rparr>\<rparr>"

text \<open>
  One event. A request is served while the server accepts connections. A signal is
  relayed to \<^verbatim>\<open>quit\<close> when the channel is registered for it (and dropped when the
  buffer is full); a signal nobody is registered for takes its default action and kills
  the process. When \<^verbatim>\<open>main\<close> runs, the receive on \<^verbatim>\<open>quit\<close> completes only if the
  buffer holds a value; then the shutdown sequence starts. \<^verbatim>\<open>ListenAndServe\<close> returning
  an error and \<^verbatim>\<open>Shutdown\<close> failing both end in \<^verbatim>\<open>log.Fatal\<close>.
\<close>

definition running :: "process \<Rightarrow> bool" where
  "running p = (Phase p = Serving \<or> Phase p = ShuttingDown)"

fun step :: "env \<Rightarrow> process \<Rightarrow> event \<Rightarrow> process" where
  "step e p (Ev_Request r) =
     (if Phase p = Serving then p\<lparr>Srv := fst (serve e r (Srv p))\<rparr> else p)"
| "step e p (Ev_Signal sig) =
     (if \<not> running p then p
      else if sig \<in> set (Notify p) then
        (if length (Quit p) < 1 then p\<lparr>Quit := Quit p @ [sig]\<rparr> else p)
      else p\<lparr>Phase := Killed\<rparr>)"
| "step e p Ev_Main =
     (if Phase p = Serving then
        (case Quit p of
           [] \<Rightarrow> p
         | sig # rest \<Rightarrow>
             say (Println ''Shutting down the server...'')
               (p\<lparr>Quit := rest, Phase := ShuttingDown\<rparr>))
      else p)"
| "step e p (Ev_ListenAndServe_Returns err) =
     (if running p then say (Fatal err) (p\<lparr>Phase := Exited\<rparr>) else p)"
| "step e p (Ev_Shutdown_Returns res) =
     (if Phase p = ShuttingDown then
        (case res of
           None \<Rightarrow> say (Println ''Server exited gracefully'') (p\<lparr>Phase := Stopped\<rparr>)
         | Some err \<Rightarrow> say (Fatal (''Server Shutdown Failed:'' @ err)) (p\<lparr>Phase := Exited\<rparr>))
      else p)"

fun run :: "env \<Rightarrow> process \<Rightarrow> event list \<Rightarrow> process" where
  "run e p [] = p"
| "run e p (ev # evs) = run e (step e p ev) evs"

subsection \<open>Sample inputs\<close>

text \<open>
  Concrete inputs on which the theorems below are instantiated: a decoder that knows
  three bodies and rejects every other one, a file system with one file, and requests.
\<close>

definition sample_Decode :: "string \<Rightarrow> Item \<Rightarrow> string + Item" where
  \<open>sample_Decode b t =
     (if b = ''{"name":"Item Three","price":300}''
        then Inr (t\<lparr>Name := ''Item Three'', Price := 300\<rparr>)
      else if b = ''{"id":77,"name":"Pen","price":5}''
        then Inr (t\<lparr>ID := 77, Name := ''Pen'', Price := 5\<rparr>)
      else if b = ''{}'' then Inr t
      else Inl ''invalid character'')\<close>

definition sample_env :: env where
  "sample_env =
     \<lparr>Decode = sample_Decode,
      Files = [''./static/app.js'' \<mapsto> ''console.log(1)''],
      TypeByExtension =
        (\<lambda>x. if x = ''.js'' then ''text/javascript; charset=utf-8''
             else ''application/octet-stream'')\<rparr>"

definition post_items :: "string \<Rightarrow> request" where
  "post_items b =
     \<lparr>Method = ''POST'', Path = ''/api/items'', Body = b,
      Done_At = None, Pick = Timer_Elapsed\<rparr>"

definition get_items :: "nat option \<Rightarrow> request" where
  "get_items d =
     \<lparr>Method = ''GET'', Path = ''/api/items'', Body = [],
      Done_At = d, Pick = Ctx_Done\<rparr>"

definition get_path :: "string \<Rightarrow> request" where
  "get_path p =
     \<lparr>Method = ''GET'', Path = p, Body = [], Done_At = None, Pick = Timer_Elapsed\<rparr>"

section \<open>Properties\<close>

lemmas writer_defs = new_writer_def Header_Set_def WriteHeader_def Write_def Encode_def
  http_Error_def http_NotFound_def

lemmas status_defs = StatusOK_def StatusCreated_def StatusBadRequest_def StatusNotFound_def
  StatusMethodNotAllowed_def StatusRequestTimeout_def

lemmas sample_defs = sample_Decode_def sample_env_def post_items_def get_items_def
  get_path_def server_init_def items_init_def zero_Item_def

subsection \<open>The create handler\<close>

text \<open>
  C1. A POST to /api/items whose body decodes is answered with status 201; exactly one
  item is appended to the store, and the identifier of the stored item, which is also
  the item written to the response, is the length of the store before the insert plus 1.
\<close>

theorem AddItemHandler_created:
  assumes "D (Body r) zero_Item = Inr it"
  shows "Status (snd (AddItemHandler D new_writer r s)) = Some 201
       \<and> items (fst (AddItemHandler D new_writer r s))
           = items s @ [it\<lparr>ID := int (length (items s)) + 1\<rparr>]
       \<and> length (items (fst (AddItemHandler D new_writer r s))) = length (items s) + 1
       \<and> ID (last (items (fst (AddItemHandler D new_writer r s)))) = int (length (items s)) + 1
       \<and> Written (snd (AddItemHandler D new_writer r s))
           = [JSON (V_Item (last (items (fst (AddItemHandler D new_writer r s)))))]"
  using assms by (simp add: AddItemHandler_def writer_defs status_defs Let_def)

theorem AddItemHandler_created_witness:
  \<open>sample_Decode (Body (post_items ''{"name":"Item Three","price":300}'')) zero_Item
      = Inr \<lparr>ID = 0, Name = ''Item Three'', Price = 300\<rparr>
   \<and> Status (snd (AddItemHandler sample_Decode new_writer
         (post_items ''{"name":"Item Three","price":300}'') server_init)) = Some 201
   \<and> items (fst (AddItemHandler sample_Decode new_writer
         (post_items ''{"name":"Item Three","price":300}'') server_init))
       = items_init @ [\<lparr>ID = 3, Name = ''Item Three'', Price = 300\<rparr>]\<close>
proof -
  have h: \<open>sample_Decode (Body (post_items ''{"name":"Item Three","price":300}'')) zero_Item
      = Inr \<lparr>ID = 0, Name = ''Item Three'', Price = 300\<rparr>\<close>
    by (simp add: sample_defs)
  show ?thesis
    using h AddItemHandler_created [where D = sample_Decode
        and r = \<open>post_items ''{"name":"Item Three","price":300}''\<close>
        and it = \<open>\<lparr>ID = 0, Name = ''Item Three'', Price = 300\<rparr>\<close> and s = server_init]
    by (simp add: sample_defs)
qed

text \<open>
  C2. A POST to /api/items whose body fails to decode is answered with status 400, the
  decoder's error text as the plain-text body, and the server state, the store with it,
  is the one before the request.
\<close>

theorem AddItemHandler_bad_request:
  assumes "D (Body r) zero_Item = Inl err"
  shows "fst (AddItemHandler D new_writer r s) = s
       \<and> items (fst (AddItemHandler D new_writer r s)) = items s
       \<and> Status (snd (AddItemHandler D new_writer r s)) = Some 400
       \<and> Written (snd (AddItemHandler D new_writer r s)) = [Text_Line err]
       \<and> Header (snd (AddItemHandler D new_writer r s)) ''Content-Type''
           = Some ''text/plain; charset=utf-8''"
  using assms by (simp add: AddItemHandler_def writer_defs status_defs Let_def)

theorem AddItemHandler_bad_request_witness:
  "sample_Decode (Body (post_items ''{name:'')) zero_Item = Inl ''invalid character''
   \<and> fst (AddItemHandler sample_Decode new_writer (post_items ''{name:'') server_init)
       = server_init
   \<and> Status (snd (AddItemHandler sample_Decode new_writer (post_items ''{name:'') server_init))
       = Some 400
   \<and> Written (snd (AddItemHandler sample_Decode new_writer (post_items ''{name:'') server_init))
       = [Text_Line ''invalid character'']"
proof -
  have h: "sample_Decode (Body (post_items ''{name:'')) zero_Item = Inl ''invalid character''"
    by (simp add: sample_defs)
  show ?thesis
    using h AddItemHandler_bad_request [where D = sample_Decode
        and r = "post_items ''{name:''" and err = "''invalid character''"
        and s = server_init]
    by simp
qed

text \<open>
  C7. When the body decodes, whatever identifier the decoded item carries is replaced
  by the assigned one, and the stored item, which is the one returned, has the name and
  the price of the decoded item.
\<close>

theorem AddItemHandler_overwrites_ID:
  assumes "D (Body r) zero_Item = Inr it"
  shows "items (fst (AddItemHandler D new_writer r s))
           = items s @ [\<lparr>ID = int (length (items s)) + 1, Name = Name it, Price = Price it\<rparr>]
       \<and> Written (snd (AddItemHandler D new_writer r s))
           = [JSON (V_Item \<lparr>ID = int (length (items s)) + 1, Name = Name it, Price = Price it\<rparr>)]"
  using assms by (simp add: AddItemHandler_def writer_defs status_defs Let_def)

theorem AddItemHandler_overwrites_ID_witness:
  \<open>sample_Decode (Body (post_items ''{"id":77,"name":"Pen","price":5}'')) zero_Item
      = Inr \<lparr>ID = 77, Name = ''Pen'', Price = 5\<rparr>
   \<and> items (fst (AddItemHandler sample_Decode new_writer
         (post_items ''{"id":77,"name":"Pen","price":5}'') server_init))
       = items_init @ [\<lparr>ID = 3, Name = ''Pen'', Price = 5\<rparr>]
   \<and> Written (snd (AddItemHandler sample_Decode new_writer
         (post_items ''{"id":77,"name":"Pen","price":5}'') server_init))
       = [JSON (V_Item \<lparr>ID = 3, Name = ''Pen'', Price = 5\<rparr>)]\<close>
proof -
  have h: \<open>sample_Decode (Body (post_items ''{"id":77,"name":"Pen","price":5}'')) zero_Item
      = Inr \<lparr>ID = 77, Name = ''Pen'', Price = 5\<rparr>\<close>
    by (simp add: sample_defs)
  show ?thesis
    using h AddItemHandler_overwrites_ID [where D = sample_Decode
        and r = \<open>post_items ''{"id":77,"name":"Pen","price":5}''\<close>
        and it = \<open>\<lparr>ID = 77, Name = ''Pen'', Price = 5\<rparr>\<close> and s = server_init]
    by (simp add: sample_defs)
qed



subsection \<open>The list handler\<close>

text \<open>
  C3. When the timer elapses before the request's context is done (the context is never
  done, or is done later than the two seconds), the list handler answers with status 200
  and content type application/json, and hands the whole store, in its order, to the
  JSON encoder. The server state is left as it was.
\<close>

theorem GetItemsHandler_timer_first:
  assumes "\<forall>t. Done_At r = Some t \<longrightarrow> timer_ns < t"
  shows "Status (snd (GetItemsHandler new_writer r s)) = Some 200
       \<and> Header (snd (GetItemsHandler new_writer r s)) ''Content-Type''
           = Some ''application/json''
       \<and> Written (snd (GetItemsHandler new_writer r s)) = [JSON (V_Items (items s))]
       \<and> fst (GetItemsHandler new_writer r s) = s"
  using assms
  by (cases "Done_At r")
     (simp_all add: GetItemsHandler_def select_first_def writer_defs status_defs Let_def)

theorem GetItemsHandler_timer_first_witness:
  "Done_At (get_items (Some 3000000000)) = Some 3000000000 \<and> timer_ns < 3000000000
   \<and> Status (snd (GetItemsHandler new_writer (get_items (Some 3000000000)) server_init))
       = Some 200
   \<and> Written (snd (GetItemsHandler new_writer (get_items (Some 3000000000)) server_init))
       = [JSON (V_Items
           [\<lparr>ID = 1, Name = ''Item One'', Price = 100\<rparr>,
            \<lparr>ID = 2, Name = ''Item Two'', Price = 200\<rparr>])]"
proof -
  have h: "\<forall>t. Done_At (get_items (Some 3000000000)) = Some t \<longrightarrow> timer_ns < t"
    by (simp add: get_items_def timer_ns_def)
  show ?thesis
    using h GetItemsHandler_timer_first [where r = "get_items (Some 3000000000)"
        and s = server_init]
    by (simp add: server_init_def items_init_def get_items_def timer_ns_def)
qed

text \<open>
  C4. When the request's context is done before the timer elapses, the list handler
  answers with status 408 and the plain-text body "Request cancelled", appends the
  cancellation line to the log, and leaves the store as it was.
\<close>

theorem GetItemsHandler_cancelled_first:
  assumes "Done_At r = Some t" and "t < timer_ns"
  shows "Status (snd (GetItemsHandler new_writer r s)) = Some 408
       \<and> Written (snd (GetItemsHandler new_writer r s)) = [Text_Line ''Request cancelled'']
       \<and> Header (snd (GetItemsHandler new_writer r s)) ''Content-Type''
           = Some ''text/plain; charset=utf-8''
       \<and> logged (fst (GetItemsHandler new_writer r s))
           = logged s @ [Println ''Request was cancelled by the client'']
       \<and> items (fst (GetItemsHandler new_writer r s)) = items s"
  using assms
  by (simp add: GetItemsHandler_def select_first_def writer_defs status_defs Let_def)

theorem GetItemsHandler_cancelled_first_witness:
  "Done_At (get_items (Some 500000000)) = Some 500000000 \<and> 500000000 < timer_ns
   \<and> Status (snd (GetItemsHandler new_writer (get_items (Some 500000000)) server_init))
       = Some 408
   \<and> Written (snd (GetItemsHandler new_writer (get_items (Some 500000000)) server_init))
       = [Text_Line ''Request cancelled'']
   \<and> logged (fst (GetItemsHandler new_writer (get_items (Some 500000000)) server_init))
       = [Println ''Request was cancelled by the client'']
   \<and> items (fst (GetItemsHandler new_writer (get_items (Some 500000000)) server_init))
       = items_init"
proof -
  have h1: "Done_At (get_items (Some 500000000)) = Some 500000000"
    by (simp add: get_items_def)
  have h2: "(500000000::nat) < timer_ns"
    by (simp add: timer_ns_def)
  show ?thesis
    using h1 h2 GetItemsHandler_cancelled_first [OF h1 h2, where s = server_init]
    by (simp add: server_init_def)
qed

text \<open>
  C5. Every call of the list handler ends in exactly one of two outcomes: the 200
  response carrying the whole store with the state untouched, or the 408 response
  carrying only the cancellation text. Never both, never neither, and the 200 response
  never carries less than the whole store.
\<close>

theorem GetItemsHandler_one_outcome:
  "(GetItemsHandler new_writer r s
      = (s, \<lparr>Header = [''Content-Type'' \<mapsto> ''application/json''], Status = Some 200,
              Written = [JSON (V_Items (items s))]\<rparr>))
   \<noteq>
   (GetItemsHandler new_writer r s
      = (s\<lparr>logged := logged s @ [Println ''Request was cancelled by the client'']\<rparr>,
         \<lparr>Header = [''Content-Type'' \<mapsto> ''text/plain; charset=utf-8'',
                     ''X-Content-Type-Options'' \<mapsto> ''nosniff''],
           Status = Some 408, Written = [Text_Line ''Request cancelled'']\<rparr>))"
  by (cases "select_first r")
     (simp_all add: GetItemsHandler_def writer_defs status_defs Let_def)

subsection \<open>The store under the router\<close>

lemma loggingMiddleware_items:
  "items (fst (loggingMiddleware h w r s)) = items (fst (h w r s))"
  by (simp add: loggingMiddleware_def split: prod.splits)

lemma GetItemsHandler_items: "items (fst (GetItemsHandler w r s)) = items s"
  by (simp add: GetItemsHandler_def Let_def split: select_case.splits)

lemma AddItemHandler_items:
  "items (fst (AddItemHandler D w r s))
     = (case D (Body r) zero_Item of
          Inl err \<Rightarrow> items s
        | Inr it \<Rightarrow> items s @ [it\<lparr>ID := int (length (items s)) + 1\<rparr>])"
  by (simp add: AddItemHandler_def Let_def split: sum.splits)

lemma static_items:
  "items (fst (StripPrefix pre (FileServer root fs mime) w r s)) = items s"
  by (simp add: StripPrefix_def FileServer_def)

lemma serve_items:
  "items (fst (serve e r s))
     = (if \<not> prefix ''/static/'' (Path r) \<and> Path r = ''/api/items'' \<and> Method r = ''POST''
        then (case Decode e (Body r) zero_Item of
                Inl err \<Rightarrow> items s
              | Inr it \<Rightarrow> items s @ [it\<lparr>ID := int (length (items s)) + 1\<rparr>])
        else items s)"
  by (simp add: serve_def loggingMiddleware_items GetItemsHandler_items AddItemHandler_items
        static_items NotFoundHandler_def)

lemma serve_items_cases:
  "items (fst (serve e r s)) = items s \<or> (\<exists>x. items (fst (serve e r s)) = items s @ [x])"
  by (simp add: serve_items split: sum.splits)

lemma serve_all_prefix: "prefix (items s) (items (serve_all e rs s))"
proof (induction rs arbitrary: s)
  case Nil
  show ?case by simp
next
  case (Cons r rs)
  have "prefix (items s) (items (fst (serve e r s)))"
    using serve_items_cases [of e r s] by auto
  moreover have "prefix (items (fst (serve e r s))) (items (serve_all e (r # rs) s))"
    using Cons.IH by simp
  ultimately show ?case by (rule prefix_order.trans)
qed

lemma serve_all_length: "length (items (serve_all e rs s)) \<le> length (items s) + length rs"
proof (induction rs arbitrary: s)
  case Nil
  show ?case by simp
next
  case (Cons r rs)
  have "length (items (fst (serve e r s))) \<le> length (items s) + 1"
    using serve_items_cases [of e r s] by auto
  moreover have "length (items (serve_all e (r # rs) s))
      \<le> length (items (fst (serve e r s))) + length rs"
    using Cons.IH by simp
  ultimately show ?case by simp
qed

text \<open>
  C6. Serving a request either leaves the store as it is or appends exactly one item at
  its end; the list handler leaves it as it is. Hence after any sequence of requests the
  old store is a prefix of the new one: every item stored before is still there, at the
  same position and with the same contents.
\<close>

theorem item_store_append_only:
  "(items (fst (serve e r s)) = items s \<or> (\<exists>x. items (fst (serve e r s)) = items s @ [x]))
   \<and> items (fst (GetItemsHandler w r s)) = items s
   \<and> prefix (items s) (items (serve_all e rs s))
   \<and> (\<forall>i < length (items s). items (serve_all e rs s) ! i = items s ! i)"
proof -
  have "prefix (items s) (items (serve_all e rs s))"
    by (rule serve_all_prefix)
  then have "\<forall>i < length (items s). items (serve_all e rs s) ! i = items s ! i"
    by (auto simp: prefix_def nth_append)
  then show ?thesis
    using serve_items_cases [of e r s] serve_all_prefix [of s e rs]
    by (simp add: GetItemsHandler_items)
qed

theorem item_store_append_only_witness:
  \<open>items (serve_all sample_env
      [get_items None, post_items ''{"name":"Item Three","price":300}'',
       post_items ''{name:'', get_path ''/nope'']
      server_init)
    = [\<lparr>ID = 1, Name = ''Item One'', Price = 100\<rparr>,
       \<lparr>ID = 2, Name = ''Item Two'', Price = 200\<rparr>,
       \<lparr>ID = 3, Name = ''Item Three'', Price = 300\<rparr>]
   \<and> length (items server_init) = 2
   \<and> items (serve_all sample_env
         [get_items None, post_items ''{"name":"Item Three","price":300}'',
          post_items ''{name:'', get_path ''/nope'']
         server_init) ! 0 = items server_init ! 0
   \<and> items (serve_all sample_env
         [get_items None, post_items ''{"name":"Item Three","price":300}'',
          post_items ''{name:'', get_path ''/nope'']
         server_init) ! 1 = items server_init ! 1\<close>
  using item_store_append_only [where e = sample_env and s = server_init
      and rs = \<open>[get_items None, post_items ''{"name":"Item Three","price":300}'',
                 post_items ''{name:'', get_path ''/nope'']\<close>]
  by (simp add: serve_items sample_defs)

subsection \<open>Static files\<close>



text \<open>
  The handler \<^verbatim>\<open>ServeStaticFiles\<close>, which no route uses, does not strip the prefix:
  for the path /static/app.js it names the file ./static/static/app.js.
\<close>

lemma ServeStaticFiles_name:
  "Path r = ''/static/app.js'' \<Longrightarrow>
   snd (ServeStaticFiles fs mime w r s) = ServeFile fs mime w ''./static/static/app.js''"
  by (simp add: ServeStaticFiles_def)



subsection \<open>Shutdown\<close>

lemma serve_logged:
  "set (logged (fst (serve e r s)))
     \<subseteq> set (logged s)
       \<union> {Println ''Request was cancelled by the client'', Request_Line (Method r) (Path r)}"
  by (auto simp: serve_def loggingMiddleware_def StripPrefix_def FileServer_def
        GetItemsHandler_def AddItemHandler_def NotFoundHandler_def Let_def
        split: option.splits prod.splits select_case.splits sum.splits if_splits)

text \<open>
  The invariant of a process in which \<^verbatim>\<open>quit\<close> is registered for no signal: the
  channel stays empty, \<^verbatim>\<open>main\<close> has not passed the receive, and neither shutdown
  message has been logged.
\<close>

lemma step_unregistered:
  assumes "Notify p = []" and "Quit p = []"
    and "Phase p \<noteq> ShuttingDown" and "Phase p \<noteq> Stopped"
    and "Println ''Shutting down the server...'' \<notin> set (logged (Srv p))"
    and "Println ''Server exited gracefully'' \<notin> set (logged (Srv p))"
  shows "Notify (step e p ev) = [] \<and> Quit (step e p ev) = []
       \<and> Phase (step e p ev) \<noteq> ShuttingDown \<and> Phase (step e p ev) \<noteq> Stopped
       \<and> Println ''Shutting down the server...'' \<notin> set (logged (Srv (step e p ev)))
       \<and> Println ''Server exited gracefully'' \<notin> set (logged (Srv (step e p ev)))"
proof (cases ev)
  case (Ev_Request r)
  show ?thesis
    using assms serve_logged [of e r "Srv p"] unfolding Ev_Request
    by auto
next
  case (Ev_Signal sig)
  show ?thesis using assms unfolding Ev_Signal by (simp add: running_def)
next
  case Ev_Main
  show ?thesis using assms unfolding Ev_Main by simp
next
  case (Ev_ListenAndServe_Returns err)
  show ?thesis using assms unfolding Ev_ListenAndServe_Returns by (simp add: running_def say_def)
next
  case (Ev_Shutdown_Returns res)
  show ?thesis using assms unfolding Ev_Shutdown_Returns by simp
qed

lemma run_unregistered:
  assumes "Notify p = []" and "Quit p = []"
    and "Phase p \<noteq> ShuttingDown" and "Phase p \<noteq> Stopped"
    and "Println ''Shutting down the server...'' \<notin> set (logged (Srv p))"
    and "Println ''Server exited gracefully'' \<notin> set (logged (Srv p))"
  shows "Quit (run e p evs) = []
       \<and> Phase (run e p evs) \<noteq> ShuttingDown \<and> Phase (run e p evs) \<noteq> Stopped
       \<and> Println ''Shutting down the server...'' \<notin> set (logged (Srv (run e p evs)))
       \<and> Println ''Server exited gracefully'' \<notin> set (logged (Srv (run e p evs)))"
  using assms
proof (induction evs arbitrary: p)
  case Nil
  then show ?case by simp
next
  case (Cons ev evs)
  have "Notify (step e p ev) = [] \<and> Quit (step e p ev) = []
       \<and> Phase (step e p ev) \<noteq> ShuttingDown \<and> Phase (step e p ev) \<noteq> Stopped
       \<and> Println ''Shutting down the server...'' \<notin> set (logged (Srv (step e p ev)))
       \<and> Println ''Server exited gracefully'' \<notin> set (logged (Srv (step e p ev)))"
    using Cons.prems by (rule step_unregistered)
  then show ?case using Cons.IH [of "step e p ev"] by simp
qed

text \<open>
  The shutdown path of the model is live: had \<^verbatim>\<open>quit\<close> been registered for the
  interrupt signal, the signal followed by a run of \<^verbatim>\<open>main\<close> would start the shutdown.
\<close>

lemma registered_signal_shuts_down:
  "Phase (run e (main_init\<lparr>Notify := [Interrupt]\<rparr>) [Ev_Signal Interrupt, Ev_Main])
     = ShuttingDown"
  by (simp add: main_init_def running_def say_def)

text \<open>
  C8. From the state in which \<^verbatim>\<open>main\<close> waits on \<^verbatim>\<open>quit\<close>, whatever requests, signals,
  listener errors and scheduling follow, nothing is ever sent on the channel, the
  receive never completes, the process is never in the shutting-down or the stopped
  phase, and neither message of the shutdown sequence is ever logged. A signal ends the
  process by its default action instead.
\<close>

theorem shutdown_unreachable:
  "Quit (run e main_init evs) = []
   \<and> Phase (run e main_init evs) \<noteq> ShuttingDown
   \<and> Phase (run e main_init evs) \<noteq> Stopped
   \<and> Println ''Shutting down the server...'' \<notin> set (logged (Srv (run e main_init evs)))
   \<and> Println ''Server exited gracefully'' \<notin> set (logged (Srv (run e main_init evs)))
   \<and> Phase (run e main_init [Ev_Signal sig, Ev_Main]) = Killed"
proof -
  have "Phase (run e main_init [Ev_Signal sig, Ev_Main]) = Killed"
    by (simp add: main_init_def running_def)
  moreover have "Quit (run e main_init evs) = []
     \<and> Phase (run e main_init evs) \<noteq> ShuttingDown
     \<and> Phase (run e main_init evs) \<noteq> Stopped
     \<and> Println ''Shutting down the server...'' \<notin> set (logged (Srv (run e main_init evs)))
     \<and> Println ''Server exited gracefully'' \<notin> set (logged (Srv (run e main_init evs)))"
    by (rule run_unregistered) (simp_all add: main_init_def server_init_def)
  ultimately show ?thesis by simp
qed

end
